theory Spec2Isabelle
  imports Complex_Main "HOL-Library.Word"
begin

section \<open>Shop Lite API: the request handlers of main.py\<close>

text \<open>
  The handlers of \<^verbatim>\<open>src/main.py\<close> are embedded as functions on an explicit store.
  The module-level handle \<^verbatim>\<open>db\<close> (a database handle, or \<^verbatim>\<open>None\<close> when the store is
  unconfigured) is an argument of type \<open>Database option\<close>; a handler that writes returns
  the new store next to its result. A raised exception is the \<open>Inl\<close> of a sum.
\<close>

subsection \<open>Python strings\<close>

text \<open>
  A Python \<^verbatim>\<open>str\<close> is a sequence of code points, so \<^verbatim>\<open>s[:50]\<close> and \<^verbatim>\<open>len(s)\<close> count
  code points. \<open>py\<close> reads an ASCII literal; other characters are written by number.
\<close>

type_synonym pystr = "nat list"

definition py :: "string \<Rightarrow> pystr" where
  "py s = map of_char s"

subsection \<open>Exceptions and values\<close>

datatype exn =
    HTTPException (status_code: nat) (detail: pystr)
  | InvalidId pystr
  | ResponseValidationError
  | Exception pystr

subsection \<open>bson.ObjectId\<close>

text \<open>
  An ObjectId holds a byte string. \<^verbatim>\<open>ObjectId(s)\<close> on a \<^verbatim>\<open>str\<close> checks \<^verbatim>\<open>len(s) == 24\<close>
  and reads the bytes with \<^verbatim>\<open>bytes.fromhex(s)\<close>; it raises \<^verbatim>\<open>InvalidId\<close> when the length
  differs or \<^verbatim>\<open>fromhex\<close> fails. \<^verbatim>\<open>bytes.fromhex\<close> reads two hexadecimal digits (either
  case) per byte and skips ASCII whitespace in front of a byte and at the end, so a
  24-character string with whitespace is accepted and gives fewer than 12 bytes.
  \<^verbatim>\<open>str(oid)\<close> is \<^verbatim>\<open>hexlify\<close> of the bytes: two lower-case digits per byte.
\<close>

datatype ObjectId = Binary (binary: "8 word list")

definition isspace :: "nat \<Rightarrow> bool" where
  "isspace c = (c = 32 \<or> (9 \<le> c \<and> c \<le> 13))"

definition hexdigit :: "nat \<Rightarrow> nat option" where
  "hexdigit c =
     (if 48 \<le> c \<and> c \<le> 57 then Some (c - 48)
      else if 97 \<le> c \<and> c \<le> 102 then Some (c - 87)
      else if 65 \<le> c \<and> c \<le> 70 then Some (c - 55)
      else None)"

definition hexchar :: "nat \<Rightarrow> nat" where
  "hexchar d = (if d < 10 then 48 + d else 87 + d)"

fun fromhex :: "pystr \<Rightarrow> 8 word list option" where
  "fromhex [] = Some []"
| "fromhex [c] = (if isspace c then Some [] else None)"
| "fromhex (c # c' # cs) =
     (if isspace c then fromhex (c' # cs)
      else (case hexdigit c of
              None \<Rightarrow> None
            | Some hi \<Rightarrow>
                (case hexdigit c' of
                   None \<Rightarrow> None
                 | Some lo \<Rightarrow>
                     (case fromhex cs of
                        None \<Rightarrow> None
                      | Some bs \<Rightarrow> Some (of_nat (16 * hi + lo) # bs)))))"

definition hexlify :: "8 word list \<Rightarrow> pystr" where
  "hexlify bs = concat (map (\<lambda>b. [hexchar (unat b div 16), hexchar (unat b mod 16)]) bs)"

definition ObjectId :: "pystr \<Rightarrow> exn + ObjectId" where
  "ObjectId s =
     (if length s = 24 then
        (case fromhex s of
           None \<Rightarrow> Inl (InvalidId s)
         | Some bs \<Rightarrow> Inr (Binary bs))
      else Inl (InvalidId s))"

definition str_ObjectId :: "ObjectId \<Rightarrow> pystr" where
  "str_ObjectId oid = hexlify (binary oid)"

text \<open>
  The ObjectId that the store assigns has 12 bytes. \<open>Oid w\<close> is the one whose bytes are
  the 96-bit number \<open>w\<close>, most significant byte first.
\<close>

definition Oid :: "96 word \<Rightarrow> ObjectId" where
  "Oid w = Binary (map (\<lambda>i. ucast (drop_bit (8 * i) w)) [11, 10, 9, 8, 7, 6, 5, 4, 3, 2, 1, 0 :: nat])"

subsection \<open>Documents and the store\<close>

text \<open>
  The values that occur in the documents of this service. The prices are float literals
  that are only stored and compared with zero, so a float is read as the real number it
  denotes.
\<close>

datatype pyval =
    VNone
  | VBool bool
  | VInt int
  | VFloat real
  | VStr pystr
  | VObjectId ObjectId
  | VList "pyval list"

type_synonym document = "pystr \<rightharpoonup> pyval"

text \<open>
  The database handle: the collections by name (a collection that does not exist is
  empty), the attribute \<^verbatim>\<open>name\<close> (\<open>None\<close> when \<^verbatim>\<open>hasattr(db, 'name')\<close> is false), and the
  number of the ObjectId that the next insertion is given.
\<close>

record Database =
  db_name :: "pystr option"
  storage :: "pystr \<Rightarrow> document list"
  next_oid :: "96 word"

text \<open>
  \<^verbatim>\<open>db[c].find_one({"_id": oid})\<close>: the first document of the collection whose \<^verbatim>\<open>_id\<close> is
  \<open>oid\<close>, or \<^verbatim>\<open>None\<close>. \<^verbatim>\<open>db[c].count_documents({})\<close>: the number of documents.
\<close>

definition find_one :: "Database \<Rightarrow> pystr \<Rightarrow> ObjectId \<Rightarrow> document option" where
  "find_one d c oid = find (\<lambda>doc. doc (py ''_id'') = Some (VObjectId oid)) (storage d c)"

definition count_documents :: "Database \<Rightarrow> pystr \<Rightarrow> nat" where
  "count_documents d c = length (storage d c)"

text \<open>
  Modelled from the spec: \<^verbatim>\<open>create_document\<close> of the module \<^verbatim>\<open>database\<close>, which is not
  among the sources. Section 4.1: \<^verbatim>\<open>insert(collection_name, record) -> identifier\<close>
  appends the record to the named collection and returns the newly assigned identifier
  as a string; it fails with \<^verbatim>\<open>StoreUnavailable\<close> if no connection is established.
  The record is given as the dictionary of its fields.
\<close>

definition create_document ::
  "Database option \<Rightarrow> pystr \<Rightarrow> document \<Rightarrow> exn + (pystr \<times> Database)" where
  "create_document db c data =
     (case db of
        None \<Rightarrow> Inl (Exception (py ''StoreUnavailable''))
      | Some d \<Rightarrow>
          (let oid = Oid (next_oid d);
               doc = data(py ''_id'' \<mapsto> VObjectId oid)
           in Inr (str_ObjectId oid,
                   d\<lparr>storage := (storage d)(c := storage d c @ [doc]),
                     next_oid := next_oid d + 1\<rparr>)))"

text \<open>
  Modelled from the spec: \<^verbatim>\<open>get_documents\<close> of the module \<^verbatim>\<open>database\<close>, which is not
  among the sources. Section 4.1: \<^verbatim>\<open>list_all(collection_name)\<close> returns all records in
  insertion order, fails with \<^verbatim>\<open>StoreUnavailable\<close> if no connection is established, and
  returns an empty sequence if the collection does not exist.
\<close>

definition get_documents :: "Database option \<Rightarrow> pystr \<Rightarrow> exn + document list" where
  "get_documents db c =
     (case db of
        None \<Rightarrow> Inl (Exception (py ''StoreUnavailable''))
      | Some d \<Rightarrow> Inr (storage d c))"

subsection \<open>serialize_doc\<close>

text \<open>
  \<^verbatim>\<open>serialize_doc\<close> on the value of its argument: an empty dictionary is returned as it
  is; otherwise, when \<^verbatim>\<open>_id\<close> holds an ObjectId, the result has \<^verbatim>\<open>id\<close> set to its string
  and \<^verbatim>\<open>_id\<close> deleted; a document with any other \<^verbatim>\<open>_id\<close>, or none, is returned as a copy.
\<close>

definition serialize_doc :: "document \<Rightarrow> document" where
  "serialize_doc doc =
     (if dom doc = {} then doc
      else (case doc (py ''_id'') of
              Some (VObjectId oid) \<Rightarrow>
                (doc(py ''id'' \<mapsto> VStr (str_ObjectId oid)))(py ''_id'' := None)
            | _ \<Rightarrow> doc))"

subsection \<open>Product endpoints\<close>

text \<open>
  Modelled from the spec: the model \<^verbatim>\<open>Product\<close> of the module \<^verbatim>\<open>schemas\<close>, which is not
  among the sources. Section 3: title (text), description (text), price (float,
  non-negative), category (text), in_stock (boolean), image (URI string).
\<close>

record Product =
  title :: pystr
  description :: pystr
  price :: real
  category :: pystr
  in_stock :: bool
  image :: pystr

definition valid_Product :: "Product \<Rightarrow> bool" where
  "valid_Product p = (0 \<le> price p)"

text \<open>The dictionary of a model's fields (\<^verbatim>\<open>model_dump\<close>).\<close>

definition model_dump :: "Product \<Rightarrow> document" where
  "model_dump p =
     [py ''title'' \<mapsto> VStr (title p),
      py ''description'' \<mapsto> VStr (description p),
      py ''price'' \<mapsto> VFloat (price p),
      py ''category'' \<mapsto> VStr (category p),
      py ''in_stock'' \<mapsto> VBool (in_stock p),
      py ''image'' \<mapsto> VStr (image p)]"

definition list_products :: "Database option \<Rightarrow> exn + document list" where
  "list_products db =
     (case db of
        None \<Rightarrow> Inr []
      | Some d \<Rightarrow>
          (case get_documents db (py ''product'') of
             Inl e \<Rightarrow> Inl e
           | Inr docs \<Rightarrow> Inr (map serialize_doc docs)))"

definition create_product :: "Database option \<Rightarrow> Product \<Rightarrow> exn + (pystr \<times> Database)" where
  "create_product db product =
     (case db of
        None \<Rightarrow> Inl (HTTPException 500 (py ''Database not configured''))
      | Some d \<Rightarrow> create_document db (py ''product'') (model_dump product))"

text \<open>
  The \<^verbatim>\<open>try\<close> block of \<^verbatim>\<open>get_product\<close> builds the ObjectId and queries the collection; the
  handler turns any exception of the block into status 400.
\<close>

definition get_product :: "Database option \<Rightarrow> pystr \<Rightarrow> exn + document" where
  "get_product db product_id =
     (case db of
        None \<Rightarrow> Inl (HTTPException 500 (py ''Database not configured''))
      | Some d \<Rightarrow>
          (case ObjectId product_id of
             Inl e \<Rightarrow> Inl (HTTPException 400 (py ''Invalid product id''))
           | Inr oid \<Rightarrow>
               (case find_one d (py ''product'') oid of
                  None \<Rightarrow> Inl (HTTPException 404 (py ''Product not found''))
                | Some doc \<Rightarrow>
                    if dom doc = {} then Inl (HTTPException 404 (py ''Product not found''))
                    else Inr (serialize_doc doc))))"

text \<open>
  The sample records of \<^verbatim>\<open>seed_products\<close>. The hyphen of the two descriptions is the
  non-breaking hyphen U+2011.
\<close>

definition samples :: "document list" where
  "samples =
     [[py ''title'' \<mapsto> VStr (py ''Minimal Tee''),
       py ''description'' \<mapsto> VStr (py ''Soft cotton t'' @ [8209] @ py ''shirt with relaxed fit.''),
       py ''price'' \<mapsto> VFloat 24,
       py ''category'' \<mapsto> VStr (py ''Apparel''),
       py ''in_stock'' \<mapsto> VBool True,
       py ''image'' \<mapsto> VStr (py ''https://images.unsplash.com/photo-1512436991641-6745cdb1723f?q=80&w=800&auto=format&fit=crop'')],
      [py ''title'' \<mapsto> VStr (py ''Everyday Backpack''),
       py ''description'' \<mapsto> VStr (py ''Water'' @ [8209] @ py ''resistant with laptop sleeve.''),
       py ''price'' \<mapsto> VFloat 79,
       py ''category'' \<mapsto> VStr (py ''Bags''),
       py ''in_stock'' \<mapsto> VBool True,
       py ''image'' \<mapsto> VStr (py ''https://images.unsplash.com/photo-1547949003-9792a18a2601?q=80&w=800&auto=format&fit=crop'')],
      [py ''title'' \<mapsto> VStr (py ''Ceramic Mug''),
       py ''description'' \<mapsto> VStr (py ''12oz glazed mug for hot and cold drinks.''),
       py ''price'' \<mapsto> VFloat 14,
       py ''category'' \<mapsto> VStr (py ''Home''),
       py ''in_stock'' \<mapsto> VBool True,
       py ''image'' \<mapsto> VStr (py ''https://images.unsplash.com/photo-1520975661595-6453be3f7070?q=80&w=800&auto=format&fit=crop'')],
      [py ''title'' \<mapsto> VStr (py ''Running Sneakers''),
       py ''description'' \<mapsto> VStr (py ''Breathable mesh, cushioned sole.''),
       py ''price'' \<mapsto> VFloat 110,
       py ''category'' \<mapsto> VStr (py ''Footwear''),
       py ''in_stock'' \<mapsto> VBool True,
       py ''image'' \<mapsto> VStr (py ''https://images.unsplash.com/photo-1542291026-7eec264c27ff?q=80&w=800&auto=format&fit=crop'')]]"

text \<open>
  The loop \<^verbatim>\<open>for p in samples: create_document("product", p); inserted += 1\<close>, with
  the store and the counter as its state.
\<close>

fun seed_loop :: "Database \<Rightarrow> document list \<Rightarrow> int \<Rightarrow> exn + (int \<times> Database)" where
  "seed_loop d [] inserted = Inr (inserted, d)"
| "seed_loop d (p # ps) inserted =
     (case create_document (Some d) (py ''product'') p of
        Inl e \<Rightarrow> Inl e
      | Inr (_, d') \<Rightarrow> seed_loop d' ps (inserted + 1))"

definition seed_products :: "Database option \<Rightarrow> exn + (document \<times> Database)" where
  "seed_products db =
     (case db of
        None \<Rightarrow> Inl (HTTPException 500 (py ''Database not configured''))
      | Some d \<Rightarrow>
          (let count = count_documents d (py ''product'')
           in if count > 0 then
                Inr ([py ''inserted'' \<mapsto> VInt 0,
                      py ''message'' \<mapsto> VStr (py ''Products already exist'')], d)
              else
                (case seed_loop d samples 0 of
                   Inl e \<Rightarrow> Inl e
                 | Inr (inserted, d') \<Rightarrow> Inr ([py ''inserted'' \<mapsto> VInt inserted], d'))))"

text \<open>
  Modelled from the spec: the field set of \<^verbatim>\<open>Product\<close> (module \<^verbatim>\<open>schemas\<close>, not among
  the sources) as a check on a dictionary. Section 3: title, description, category and
  image are text, price is a non-negative float, in_stock is a boolean.
\<close>

definition is_str :: "pyval option \<Rightarrow> bool" where
  "is_str v = (case v of Some (VStr s) \<Rightarrow> True | _ \<Rightarrow> False)"

definition is_bool :: "pyval option \<Rightarrow> bool" where
  "is_bool v = (case v of Some (VBool b) \<Rightarrow> True | _ \<Rightarrow> False)"

definition is_nonneg_float :: "pyval option \<Rightarrow> bool" where
  "is_nonneg_float v = (case v of Some (VFloat x) \<Rightarrow> 0 \<le> x | _ \<Rightarrow> False)"

definition conforms_Product :: "document \<Rightarrow> bool" where
  "conforms_Product doc =
     (is_str (doc (py ''title'')) \<and>
      is_str (doc (py ''description'')) \<and>
      is_nonneg_float (doc (py ''price'')) \<and>
      is_str (doc (py ''category'')) \<and>
      is_bool (doc (py ''in_stock'')) \<and>
      is_str (doc (py ''image'')))"

subsection \<open>The response model of the product routes\<close>

text \<open>
  \<^verbatim>\<open>class ProductOut(Product): id: str\<close> is the declared \<^verbatim>\<open>response_model\<close> of
  \<^verbatim>\<open>get_product\<close>, and \<^verbatim>\<open>List[ProductOut]\<close> that of \<^verbatim>\<open>list_products\<close>. The framework
  validates what the handler returns against it: a record that lacks a declared field,
  or holds a value of another type, fails with \<^verbatim>\<open>ResponseValidationError\<close> (the client
  gets status 500); a record that passes is sent with its declared fields only. The
  fields inherited from \<^verbatim>\<open>Product\<close> are checked by \<open>conforms_Product\<close>, at their
  declared types; the framework's conversions between types do not change which fields
  are sent.
\<close>

definition ProductOut_fields :: "pystr list" where
  "ProductOut_fields =
     [py ''title'', py ''description'', py ''price'', py ''category'', py ''in_stock'',
      py ''image'', py ''id'']"

definition validate_ProductOut :: "document \<Rightarrow> exn + document" where
  "validate_ProductOut r =
     (if conforms_Product r \<and> is_str (r (py ''id''))
      then Inr (r |` set ProductOut_fields)
      else Inl ResponseValidationError)"

fun validate_List_ProductOut :: "document list \<Rightarrow> exn + document list" where
  "validate_List_ProductOut [] = Inr []"
| "validate_List_ProductOut (r # rs) =
     (case validate_ProductOut r of
        Inl e \<Rightarrow> Inl e
      | Inr v \<Rightarrow>
          (case validate_List_ProductOut rs of
             Inl e \<Rightarrow> Inl e
           | Inr vs \<Rightarrow> Inr (v # vs)))"

text \<open>What a client of the two routes receives: the handler's result through the response model.\<close>

definition list_products_response :: "Database option \<Rightarrow> exn + document list" where
  "list_products_response db =
     (case list_products db of
        Inl e \<Rightarrow> Inl e
      | Inr rs \<Rightarrow> validate_List_ProductOut rs)"


subsection \<open>Order endpoint\<close>

text \<open>
  Modelled from the spec: the model \<^verbatim>\<open>Order\<close> of the module \<^verbatim>\<open>schemas\<close>, which is not
  among the sources. Section 3 leaves its schema unconstrained beyond being a record, so
  an order body is the dictionary of its fields.
\<close>

type_synonym Order = document

definition create_order :: "Database option \<Rightarrow> Order \<Rightarrow> exn + (pystr \<times> Database)" where
  "create_order db order =
     (case db of
        None \<Rightarrow> Inl (HTTPException 500 (py ''Database not configured''))
      | Some d \<Rightarrow> create_document db (py ''order'') order)"

subsection \<open>The diagnostic endpoint\<close>

text \<open>
  The status object of \<^verbatim>\<open>/test\<close>. Its literals start with U+2705 (check mark), U+274C
  (cross mark) or U+26A0 U+FE0F (warning sign).
\<close>

record response =
  backend :: pystr
  database :: pystr
  database_url :: "pystr option"
  database_name :: "pystr option"
  connection_status :: pystr
  collections :: "pystr list"

definition check_mark :: pystr where
  "check_mark = [9989]"

definition cross_mark :: pystr where
  "cross_mark = [10060]"

definition warning_sign :: pystr where
  "warning_sign = [9888, 65039]"

text \<open>Truth value of \<^verbatim>\<open>os.getenv(k)\<close>: set and not the empty string.\<close>

definition env_set :: "(pystr \<rightharpoonup> pystr) \<Rightarrow> pystr \<Rightarrow> bool" where
  "env_set getenv k = (case getenv k of None \<Rightarrow> False | Some v \<Rightarrow> v \<noteq> [])"

text \<open>
  The body of the outer \<^verbatim>\<open>try\<close>. The call \<^verbatim>\<open>db.list_collection_names()\<close> goes to the
  server, so its outcome is an argument: \<open>Inl m\<close> when it raises an exception \<open>e\<close> with
  \<^verbatim>\<open>str(e)\<close> \<open>= m\<close>, \<open>Inr names\<close> when it returns. The result is \<open>Inl (m, r)\<close> when an
  exception leaves the block with the status object \<open>r\<close> written so far.
\<close>

definition probe ::
  "Database option \<Rightarrow> pystr + pystr list \<Rightarrow> response \<Rightarrow> (pystr \<times> response) + response" where
  "probe db list_collection_names response =
     (case db of
        Some d \<Rightarrow>
          (let response = response
                 \<lparr>database := check_mark @ py '' Available'',
                  database_url := Some (check_mark @ py '' Configured''),
                  database_name := Some (case db_name d of
                                           Some n \<Rightarrow> n
                                         | None \<Rightarrow> check_mark @ py '' Connected''),
                  connection_status := py ''Connected''\<rparr>
           in (case list_collection_names of
                 Inr names \<Rightarrow>
                   Inr (response\<lparr>collections := take 10 names,
                                 database := check_mark @ py '' Connected & Working''\<rparr>)
               | Inl m \<Rightarrow>
                   Inr (response\<lparr>database :=
                          warning_sign @ py ''  Connected but Error: '' @ take 50 m\<rparr>)))
      | None \<Rightarrow>
          Inr (response\<lparr>database := warning_sign @ py ''  Available but not initialized''\<rparr>))"

definition test_database ::
  "Database option \<Rightarrow> pystr + pystr list \<Rightarrow> (pystr \<rightharpoonup> pystr) \<Rightarrow> exn + response" where
  "test_database db list_collection_names getenv =
     (let response =
            \<lparr>backend = check_mark @ py '' Running'',
             database = cross_mark @ py '' Not Available'',
             database_url = None,
             database_name = None,
             connection_status = py ''Not Connected'',
             collections = []\<rparr>;
          response =
            (case probe db list_collection_names response of
               Inr r \<Rightarrow> r
             | Inl (m, r) \<Rightarrow> r\<lparr>database := cross_mark @ py '' Error: '' @ take 50 m\<rparr>);
          response = response\<lparr>database_url :=
            Some (if env_set getenv (py ''DATABASE_URL'')
                  then check_mark @ py '' Set'' else cross_mark @ py '' Not Set'')\<rparr>;
          response = response\<lparr>database_name :=
            Some (if env_set getenv (py ''DATABASE_NAME'')
                  then check_mark @ py '' Set'' else cross_mark @ py '' Not Set'')\<rparr>
      in Inr response)"

subsection \<open>serialize_doc on references\<close>

text \<open>
  Dictionaries are objects: a handler holds a reference to the document, and
  \<^verbatim>\<open>serialize_doc\<close> writes through a reference. The object store is the list of the
  dictionaries allocated so far and a reference is an index into it. \<^verbatim>\<open>dict(doc)\<close>
  allocates a new dictionary with the same items.
\<close>

type_synonym heap = "document list"

definition dict_copy :: "heap \<Rightarrow> nat \<Rightarrow> heap \<times> nat" where
  "dict_copy h r = (h @ [h ! r], length h)"

definition setitem :: "heap \<Rightarrow> nat \<Rightarrow> pystr \<Rightarrow> pyval \<Rightarrow> heap" where
  "setitem h r k v = h[r := (h ! r)(k \<mapsto> v)]"

definition delitem :: "heap \<Rightarrow> nat \<Rightarrow> pystr \<Rightarrow> heap" where
  "delitem h r k = h[r := (h ! r)(k := None)]"

definition serialize_doc_ref :: "heap \<Rightarrow> nat \<Rightarrow> heap \<times> nat" where
  "serialize_doc_ref h doc =
     (if dom (h ! doc) = {} then (h, doc)
      else
        (let (h, doc) = dict_copy h doc;
             id0 = (h ! doc) (py ''_id'')
         in (case id0 of
               Some (VObjectId oid) \<Rightarrow>
                 (let h = setitem h doc (py ''id'') (VStr (str_ObjectId oid));
                      h = delitem h doc (py ''_id'')
                  in (h, doc))
             | _ \<Rightarrow> (h, doc))))"

subsection \<open>Sample inputs\<close>

definition empty_store :: Database where
  "empty_store = \<lparr>db_name = Some (py ''shop''), storage = (\<lambda>c. []), next_oid = 0\<rparr>"

definition mug :: Product where
  "mug = \<lparr>title = py ''Ceramic Mug'',
          description = py ''12oz glazed mug for hot and cold drinks.'',
          price = 14,
          category = py ''Home'',
          in_stock = True,
          image = py ''https://example.com/mug.png''\<rparr>"

definition mug_doc :: document where
  "mug_doc = (model_dump mug)(py ''_id'' \<mapsto> VObjectId (Oid 0))"

definition mug_store :: Database where
  "mug_store = \<lparr>db_name = Some (py ''shop''),
                storage = (\<lambda>c. [])(py ''product'' := [mug_doc]),
                next_oid = 1\<rparr>"

text \<open>A document whose \<^verbatim>\<open>_id\<close> is a string, as a writer other than this service may store.\<close>

definition legacy_doc :: document where
  "legacy_doc = [py ''_id'' \<mapsto> VStr (py ''sku-1''), py ''title'' \<mapsto> VStr (py ''Old stock'')]"

definition legacy_store :: Database where
  "legacy_store = \<lparr>db_name = Some (py ''shop''),
                   storage = (\<lambda>c. [])(py ''product'' := [legacy_doc]),
                   next_oid = 0\<rparr>"

subsection \<open>Predicates of the claims\<close>

text \<open>A record as a client may see it: a string \<^verbatim>\<open>id\<close> and no \<^verbatim>\<open>_id\<close>.\<close>

definition client_record :: "document \<Rightarrow> bool" where
  "client_record r = (is_str (r (py ''id'')) \<and> r (py ''_id'') = None)"

definition has_ObjectId :: "document \<Rightarrow> bool" where
  "has_ObjectId doc = (case doc (py ''_id'') of Some (VObjectId oid) \<Rightarrow> True | _ \<Rightarrow> False)"

section \<open>Properties\<close>

lemma py_eq_iff [simp]: "py a = py b \<longleftrightarrow> a = b"
  unfolding py_def by (simp add: inj_of_char)

subsection \<open>Helper lemmas\<close>

lemma hexdigit_hexchar: "d < 16 \<Longrightarrow> hexdigit (hexchar d) = Some d"
  by (auto simp: hexdigit_def hexchar_def)

lemma not_isspace_hexchar: "d < 16 \<Longrightarrow> \<not> isspace (hexchar d)"
  by (auto simp: isspace_def hexchar_def)

lemma byte_nibbles: "of_nat (16 * (unat b div 16) + unat b mod 16) = (b :: 8 word)"
  by simp

lemma byte_nibbles_bound: "unat (b :: 8 word) div 16 < 16" "unat b mod 16 < 16"
proof -
  have "unat b < 256"
    using unsigned_less [of b, where ?'a = nat] by simp
  then show "unat b div 16 < 16" by simp
  show "unat b mod 16 < 16" by simp
qed

lemma length_hexlify: "length (hexlify bs) = 2 * length bs"
  by (induction bs) (auto simp: hexlify_def)

lemma fromhex_hexlify: "fromhex (hexlify bs) = Some bs"
proof (induction bs)
  case Nil
  then show ?case by (simp add: hexlify_def)
next
  case (Cons b bs)
  have "hexlify (b # bs) = hexchar (unat b div 16) # hexchar (unat b mod 16) # hexlify bs"
    by (simp add: hexlify_def)
  with Cons show ?case
    by (simp add: not_isspace_hexchar hexdigit_hexchar byte_nibbles_bound byte_nibbles
             del: of_nat_add of_nat_mult)
qed

text \<open>The string of a 12-byte ObjectId reads back as the same ObjectId.\<close>

lemma ObjectId_str_bytes:
  "length bs = 12 \<Longrightarrow> ObjectId (str_ObjectId (Binary bs)) = Inr (Binary bs)"
  by (simp add: ObjectId_def str_ObjectId_def length_hexlify fromhex_hexlify)

lemma ObjectId_str: "ObjectId (str_ObjectId (Oid w)) = Inr (Oid w)"
  unfolding Oid_def by (rule ObjectId_str_bytes) simp

lemma Oid_zero: "Oid 0 = Binary [0, 0, 0, 0, 0, 0, 0, 0, 0, 0, 0, 0]"
  by (simp add: Oid_def)

lemma Oid_one: "Oid 1 = Binary [0, 0, 0, 0, 0, 0, 0, 0, 0, 0, 0, 1]"
  by (simp add: Oid_def)

lemma find_None_iff2: "find P xs = None \<longleftrightarrow> (\<forall>x\<in>set xs. \<not> P x)"
  by (induction xs) auto

lemma find_append_fresh:
  "\<forall>x\<in>set xs. \<not> P x \<Longrightarrow> P y \<Longrightarrow> find P (xs @ [y]) = Some y"
  by (induction xs) auto

lemma find_Some_holds: "find P xs = Some x \<Longrightarrow> P x"
  by (induction xs) (auto split: if_splits)

lemma serialize_doc_oid:
  "doc (py ''_id'') = Some (VObjectId oid) \<Longrightarrow>
   serialize_doc doc = (doc(py ''id'' \<mapsto> VStr (str_ObjectId oid)))(py ''_id'' := None)"
  by (auto simp: serialize_doc_def)

lemma serialize_doc_inserted:
  assumes "data (py ''_id'') = None"
  shows "serialize_doc (data(py ''_id'' \<mapsto> VObjectId oid)) = data(py ''id'' \<mapsto> VStr (str_ObjectId oid))"
proof -
  have "(data(py ''_id'' \<mapsto> VObjectId oid, py ''id'' \<mapsto> VStr (str_ObjectId oid)))(py ''_id'' := None)
        = data(py ''id'' \<mapsto> VStr (str_ObjectId oid))"
    using assms by (auto simp: fun_eq_iff)
  then show ?thesis
    by (simp add: serialize_doc_oid)
qed

lemma client_record_serialize:
  "has_ObjectId doc \<Longrightarrow> client_record (serialize_doc doc)"
  by (auto simp: has_ObjectId_def client_record_def is_str_def serialize_doc_oid
           split: option.splits pyval.splits)

lemma model_dump_no_id: "model_dump P (py ''_id'') = None"
  by (simp add: model_dump_def)


lemma ObjectId_one: "ObjectId (py ''000000000000000000000001'') = Inr (Oid 1)"
  by (simp add: ObjectId_def py_def hexdigit_def isspace_def Oid_one)

text \<open>
  A 24-character identifier of digit pairs separated by spaces is accepted, as 10 bytes.
  It is the \<^verbatim>\<open>_id\<close> of no document with a 12-byte ObjectId, so the lookup finds nothing.
\<close>

lemma ObjectId_spaced:
  "ObjectId (py ''0011 2233 4455 6677 8899'')
     = Inr (Binary [0x00, 0x11, 0x22, 0x33, 0x44, 0x55, 0x66, 0x77, 0x88, 0x99])"
  by (simp add: ObjectId_def py_def hexdigit_def isspace_def)

lemma get_product_spaced_id:
  "get_product (Some mug_store) (py ''0011 2233 4455 6677 8899'')
     = Inl (HTTPException 404 (py ''Product not found''))"
  by (simp add: get_product_def ObjectId_spaced find_one_def mug_store_def mug_doc_def Oid_zero)





text \<open>An insertion keeps every stored document with an ObjectId as its \<^verbatim>\<open>_id\<close>.\<close>

lemma create_document_has_ObjectId:
  assumes "create_document (Some d) c data = Inr (I, d')"
    and "\<forall>doc\<in>set (storage d c'). has_ObjectId doc"
  shows "\<forall>doc\<in>set (storage d' c'). has_ObjectId doc"
proof -
  have new: "has_ObjectId (data(py ''_id'' \<mapsto> VObjectId (Oid (next_oid d))))"
    by (simp add: has_ObjectId_def)
  from assms(1) have "storage d' c' =
      (if c' = c then storage d c @ [data(py ''_id'' \<mapsto> VObjectId (Oid (next_oid d)))]
       else storage d c')"
    by (auto simp: create_document_def Let_def)
  with assms(2) new show ?thesis
    by (auto split: if_splits)
qed

subsection \<open>The claims\<close>

text \<open>
  C1. On a configured store, \<open>create_product\<close> returns an identifier string \<open>I\<close>, and
  \<open>get_product\<close> on \<open>I\<close> in the resulting store returns the fields of the payload with
  the additional field \<^verbatim>\<open>id\<close> \<open>= I\<close>. This holds for every payload, valid ones included.
  The identifier that the store assigns is new: no stored product has it already.
\<close>

theorem create_then_get:
  assumes fresh: "\<forall>doc\<in>set (storage d (py ''product'')).
                    doc (py ''_id'') \<noteq> Some (VObjectId (Oid (next_oid d)))"
  shows "\<exists>I d'. create_product (Some d) P = Inr (I, d') \<and>
                get_product (Some d') I = Inr ((model_dump P)(py ''id'' \<mapsto> VStr I))"
proof -
  let ?oid = "Oid (next_oid d)"
  let ?doc = "(model_dump P)(py ''_id'' \<mapsto> VObjectId ?oid)"
  let ?d' = "d\<lparr>storage := (storage d)(py ''product'' := storage d (py ''product'') @ [?doc]),
               next_oid := next_oid d + 1\<rparr>"
  have c: "create_product (Some d) P = Inr (str_ObjectId ?oid, ?d')"
    by (simp add: create_product_def create_document_def Let_def)
  have f: "find_one ?d' (py ''product'') ?oid = Some ?doc"
    using fresh by (simp add: find_one_def find_append_fresh)
  have "get_product (Some ?d') (str_ObjectId ?oid) = Inr (serialize_doc ?doc)"
    by (simp add: get_product_def ObjectId_str f)
  then have "get_product (Some ?d') (str_ObjectId ?oid)
             = Inr ((model_dump P)(py ''id'' \<mapsto> VStr (str_ObjectId ?oid)))"
    by (simp add: serialize_doc_inserted model_dump_no_id)
  with c show ?thesis by blast
qed

theorem create_then_get_witness:
  "valid_Product mug \<and>
   storage mug_store (py ''product'') = [mug_doc] \<and>
   mug_doc (py ''_id'') = Some (VObjectId (Oid 0)) \<and>
   next_oid mug_store = 1 \<and>
   (\<exists>I d'. create_product (Some mug_store) mug = Inr (I, d') \<and>
           get_product (Some d') I = Inr ((model_dump mug)(py ''id'' \<mapsto> VStr I)))"
proof -
  have s: "storage mug_store (py ''product'') = [mug_doc]"
    and i: "mug_doc (py ''_id'') = Some (VObjectId (Oid 0))"
    and n: "next_oid mug_store = 1"
    by (simp_all add: mug_store_def mug_doc_def)
  have v: "valid_Product mug"
    by (simp add: valid_Product_def mug_def)
  have h: "\<forall>doc\<in>set (storage mug_store (py ''product'')).
             doc (py ''_id'') \<noteq> Some (VObjectId (Oid (next_oid mug_store)))"
    by (simp add: s i n Oid_zero Oid_one)
  from v s i n create_then_get [OF h, of mug] show ?thesis by blast
qed

text \<open>
  C2, as amended. On a configured store, \<open>get_product\<close> on an identifier that
  \<open>ObjectId\<close> rejects raises the HTTP error 400, whatever the store holds; on an
  unconfigured store \<open>get_product\<close> raises the HTTP error 500 for every identifier.
\<close>

theorem get_product_invalid_id:
  "(ObjectId product_id = Inl e \<longrightarrow>
      get_product (Some d) product_id = Inl (HTTPException 400 (py ''Invalid product id''))) \<and>
   get_product None product_id = Inl (HTTPException 500 (py ''Database not configured''))"
  by (simp add: get_product_def)

theorem get_product_invalid_id_witness:
  "ObjectId (py ''not-an-id'') = Inl (InvalidId (py ''not-an-id'')) \<and>
   get_product (Some mug_store) (py ''not-an-id'')
     = Inl (HTTPException 400 (py ''Invalid product id'')) \<and>
   get_product None (py ''not-an-id'')
     = Inl (HTTPException 500 (py ''Database not configured''))"
proof -
  have h: "ObjectId (py ''not-an-id'') = Inl (InvalidId (py ''not-an-id''))"
    by (simp add: ObjectId_def py_def)
  from h get_product_invalid_id [of "py ''not-an-id''" "InvalidId (py ''not-an-id'')" mug_store]
  show ?thesis by simp
qed

text \<open>
  C2 as stated fails when the store is unconfigured: the test of \<^verbatim>\<open>db\<close> comes first and
  an invalid identifier gets status 500.
\<close>

theorem get_product_invalid_id_counterexample:
  "ObjectId (py ''xyz'') = Inl (InvalidId (py ''xyz'')) \<and>
   get_product None (py ''xyz'') = Inl (HTTPException 500 (py ''Database not configured''))"
  by (simp add: ObjectId_def get_product_def py_def)

text \<open>
  C4. With the store unconfigured, \<open>list_products\<close> returns the empty sequence and is
  no error, while \<open>create_product\<close> raises the HTTP error 500, whatever the payload.
\<close>

theorem unconfigured_asymmetry:
  "list_products None = Inr [] \<and>
   create_product None product = Inl (HTTPException 500 (py ''Database not configured''))"
  by (simp add: list_products_def create_product_def)

text \<open>
  C6. On a configured store, \<open>get_product\<close> on a well-formed identifier that is the
  \<^verbatim>\<open>_id\<close> of no stored product raises the HTTP error 404.
\<close>

theorem get_product_not_found:
  assumes "ObjectId product_id = Inr oid"
    and "\<forall>doc\<in>set (storage d (py ''product'')). doc (py ''_id'') \<noteq> Some (VObjectId oid)"
  shows "get_product (Some d) product_id = Inl (HTTPException 404 (py ''Product not found''))"
proof -
  have "find_one d (py ''product'') oid = None"
    using assms(2) by (simp add: find_one_def find_None_iff2)
  with assms(1) show ?thesis
    by (simp add: get_product_def)
qed

theorem get_product_not_found_witness:
  "ObjectId (py ''000000000000000000000001'') = Inr (Oid 1) \<and>
   storage mug_store (py ''product'') = [mug_doc] \<and>
   mug_doc (py ''_id'') = Some (VObjectId (Oid 0)) \<and>
   get_product (Some mug_store) (py ''000000000000000000000001'')
     = Inl (HTTPException 404 (py ''Product not found''))"
proof -
  have s: "storage mug_store (py ''product'') = [mug_doc]"
    and i: "mug_doc (py ''_id'') = Some (VObjectId (Oid 0))"
    by (simp_all add: mug_store_def mug_doc_def)
  have h: "\<forall>doc\<in>set (storage mug_store (py ''product'')).
             doc (py ''_id'') \<noteq> Some (VObjectId (Oid 1))"
    by (simp add: s i Oid_zero Oid_one)
  from s i get_product_not_found [OF ObjectId_one h] show ?thesis
    by (simp add: ObjectId_one)
qed

text \<open>
  C3. On a configured store whose product collection is empty, \<open>seed_products\<close> inserts
  the four sample records, each with the identifier the store assigns, and returns
  \<^verbatim>\<open>{"inserted": 4}\<close>; called again on the resulting store it returns \<^verbatim>\<open>inserted\<close> \<open>= 0\<close>
  (next to the message \<^verbatim>\<open>Products already exist\<close>) and the store is unchanged.
\<close>

theorem seed_twice:
  assumes "storage d (py ''product'') = []"
  shows "\<exists>d1. seed_products (Some d) = Inr ([py ''inserted'' \<mapsto> VInt 4], d1) \<and>
              storage d1 (py ''product'')
                = map2 (\<lambda>p k. p(py ''_id'' \<mapsto> VObjectId (Oid (next_oid d + k)))) samples [0, 1, 2, 3] \<and>
              seed_products (Some d1)
                = Inr ([py ''inserted'' \<mapsto> VInt 0,
                        py ''message'' \<mapsto> VStr (py ''Products already exist'')], d1)"
proof -
  obtain s1 s2 s3 s4 where s: "samples = [s1, s2, s3, s4]"
    by (simp add: samples_def)
  let ?ps = "[s1(py ''_id'' \<mapsto> VObjectId (Oid (next_oid d))),
              s2(py ''_id'' \<mapsto> VObjectId (Oid (next_oid d + 1))),
              s3(py ''_id'' \<mapsto> VObjectId (Oid (next_oid d + 2))),
              s4(py ''_id'' \<mapsto> VObjectId (Oid (next_oid d + 3)))]"
  let ?d1 = "d\<lparr>storage := (storage d)(py ''product'' := ?ps), next_oid := next_oid d + 4\<rparr>"
  have loop: "seed_loop d samples 0 = Inr (4, ?d1)"
    using assms by (simp add: s create_document_def Let_def add.commute)
  have first: "seed_products (Some d) = Inr ([py ''inserted'' \<mapsto> VInt 4], ?d1)"
    using assms by (simp add: seed_products_def count_documents_def loop)
  have second: "seed_products (Some ?d1)
                = Inr ([py ''inserted'' \<mapsto> VInt 0,
                        py ''message'' \<mapsto> VStr (py ''Products already exist'')], ?d1)"
    by (simp add: seed_products_def count_documents_def)
  have stored: "storage ?d1 (py ''product'')
                = map2 (\<lambda>p k. p(py ''_id'' \<mapsto> VObjectId (Oid (next_oid d + k)))) samples [0, 1, 2, 3]"
    by (simp add: s)
  from first second stored show ?thesis by blast
qed

theorem seed_twice_witness:
  "storage empty_store (py ''product'') = [] \<and>
   (\<exists>d1. seed_products (Some empty_store) = Inr ([py ''inserted'' \<mapsto> VInt 4], d1) \<and>
         storage d1 (py ''product'')
           = map2 (\<lambda>p k. p(py ''_id'' \<mapsto> VObjectId (Oid (next_oid empty_store + k)))) samples [0, 1, 2, 3] \<and>
         seed_products (Some d1)
           = Inr ([py ''inserted'' \<mapsto> VInt 0,
                   py ''message'' \<mapsto> VStr (py ''Products already exist'')], d1))"
proof -
  have h: "storage empty_store (py ''product'') = []"
    by (simp add: empty_store_def)
  from h seed_twice [OF h] show ?thesis by blast
qed

text \<open>
  On a store where every product has an ObjectId as its \<^verbatim>\<open>_id\<close>, as every document
  inserted by this service has, the handlers themselves return client records.
\<close>

lemma handlers_return_client_records:
  "(get_product db product_id = Inr r \<longrightarrow> client_record r) \<and>
   ((\<forall>doc\<in>set (storage d (py ''product'')). has_ObjectId doc) \<longrightarrow>
    (\<exists>rs. list_products (Some d) = Inr rs \<and> (\<forall>r\<in>set rs. client_record r)))"
proof (intro conjI impI)
  assume g: "get_product db product_id = Inr r"
  then obtain d0 oid doc where "db = Some d0" and "ObjectId product_id = Inr oid"
    and f: "find_one d0 (py ''product'') oid = Some doc" and r: "r = serialize_doc doc"
    by (auto simp: get_product_def split: option.splits sum.splits if_splits)
  from f have "doc (py ''_id'') = Some (VObjectId oid)"
    unfolding find_one_def by (rule find_Some_holds)
  then have "has_ObjectId doc"
    by (simp add: has_ObjectId_def)
  with r show "client_record r"
    by (simp add: client_record_serialize)
next
  assume "\<forall>doc\<in>set (storage d (py ''product'')). has_ObjectId doc"
  then show "\<exists>rs. list_products (Some d) = Inr rs \<and> (\<forall>r\<in>set rs. client_record r)"
    by (simp add: list_products_def get_documents_def client_record_serialize)
qed

text \<open>
  A stored product whose \<^verbatim>\<open>_id\<close> is not an ObjectId is returned by the handler as it is,
  and is refused by the response model: no record reaches the client.
\<close>

lemma legacy_document_refused:
  "list_products (Some legacy_store) = Inr [legacy_doc] \<and>
   list_products_response (Some legacy_store) = Inl ResponseValidationError"
  by (simp add: list_products_response_def list_products_def get_documents_def
                legacy_store_def serialize_doc_def legacy_doc_def validate_ProductOut_def
                conforms_Product_def is_str_def)

text \<open>
  When every stored product has an ObjectId and the fields of a Product, as the documents
  inserted by this service have, the response model lets every record through.
\<close>

lemma validate_serialized:
  assumes "has_ObjectId doc" and "conforms_Product doc"
  shows "\<exists>r. validate_ProductOut (serialize_doc doc) = Inr r"
proof -
  from assms(1) obtain oid where o: "doc (py ''_id'') = Some (VObjectId oid)"
    by (auto simp: has_ObjectId_def split: option.splits pyval.splits)
  have "conforms_Product (serialize_doc doc) \<and> is_str (serialize_doc doc (py ''id''))"
    using assms(2) o by (simp add: serialize_doc_oid conforms_Product_def is_str_def)
  then show ?thesis
    by (simp add: validate_ProductOut_def)
qed

lemma validate_List_total:
  "\<forall>x\<in>set xs. \<exists>r. validate_ProductOut x = Inr r \<Longrightarrow>
   \<exists>rs. validate_List_ProductOut xs = Inr rs \<and> length rs = length xs"
  by (induction xs) auto

lemma list_products_response_succeeds:
  assumes "\<forall>doc\<in>set (storage d (py ''product'')). has_ObjectId doc \<and> conforms_Product doc"
  shows "\<exists>rs. list_products_response (Some d) = Inr rs \<and>
              length rs = length (storage d (py ''product''))"
proof -
  have "\<forall>x\<in>set (map serialize_doc (storage d (py ''product''))).
          \<exists>r. validate_ProductOut x = Inr r"
    using assms by (auto intro: validate_serialized)
  from validate_List_total [OF this] show ?thesis
    by (simp add: list_products_response_def list_products_def get_documents_def)
qed



text \<open>
  C7. On a configured store, \<open>create_order\<close> appends the order body to the order
  collection and returns the new identifier as a string, for every body and every store;
  whatever the product collection holds, the call succeeds with the same identifier, so
  no check ties the order to a product.
\<close>

theorem create_order_unchecked:
  "create_order (Some d) order
     = Inr (str_ObjectId (Oid (next_oid d)),
            d\<lparr>storage := (storage d)(py ''order'' :=
                 storage d (py ''order'') @ [order(py ''_id'' \<mapsto> VObjectId (Oid (next_oid d)))]),
              next_oid := next_oid d + 1\<rparr>) \<and>
   (\<forall>ps. \<exists>d'. create_order (Some (d\<lparr>storage := (storage d)(py ''product'' := ps)\<rparr>)) order
              = Inr (str_ObjectId (Oid (next_oid d)), d'))"
  by (simp add: create_order_def create_document_def Let_def)

text \<open>
  C8. \<open>test_database\<close> returns a status object for every store handle, every outcome of
  \<^verbatim>\<open>list_collection_names\<close> and every environment. When that call raises on a configured
  store, the status text is the fixed prefix followed by the first 50 characters of the
  exception's text.
\<close>

theorem test_database_never_fails:
  "(\<exists>r. test_database db list_collection_names getenv = Inr r) \<and>
   (\<exists>r. test_database (Some d) (Inl m) getenv = Inr r \<and>
        database r = warning_sign @ py ''  Connected but Error: '' @ take 50 m \<and>
        length (take 50 m) \<le> 50)"
  by (simp add: test_database_def probe_def Let_def split: option.split sum.split)

text \<open>
  C9. \<open>serialize_doc\<close> does not write to its argument: after the call the dictionary
  passed in, and every dictionary allocated before the call, holds what it held before.
  The returned reference holds the value that \<open>serialize_doc\<close> computes.
\<close>

theorem serialize_doc_ref_frame:
  assumes "doc < length h" and "serialize_doc_ref h doc = (h', r)"
  shows "h' ! doc = h ! doc \<and> take (length h) h' = h \<and>
         r < length h' \<and> h' ! r = serialize_doc (h ! doc)"
  using assms
  by (auto simp: serialize_doc_ref_def serialize_doc_def dict_copy_def setitem_def delitem_def
                 Let_def nth_append
           split: if_splits option.splits pyval.splits)

theorem serialize_doc_ref_frame_witness:
  "(0::nat) < length [mug_doc] \<and>
   fst (serialize_doc_ref [mug_doc] 0) ! 0 = [mug_doc] ! 0 \<and>
   take (length [mug_doc]) (fst (serialize_doc_ref [mug_doc] 0)) = [mug_doc] \<and>
   snd (serialize_doc_ref [mug_doc] 0) < length (fst (serialize_doc_ref [mug_doc] 0)) \<and>
   fst (serialize_doc_ref [mug_doc] 0) ! snd (serialize_doc_ref [mug_doc] 0)
     = serialize_doc ([mug_doc] ! 0)"
  using serialize_doc_ref_frame [of 0 "[mug_doc]" "fst (serialize_doc_ref [mug_doc] 0)"
                                    "snd (serialize_doc_ref [mug_doc] 0)"]
  by simp

text \<open>
  C10. There are four sample records and each has the fields of a Product: title,
  description, category and image are strings, price is a non-negative float and
  in_stock is a boolean.
\<close>

theorem samples_conform:
  "length samples = 4 \<and> list_all conforms_Product samples"
  by (simp add: samples_def conforms_Product_def is_str_def is_bool_def is_nonneg_float_def)

end
